theory Spec2Isabelle
  imports Main
begin

section \<open>JavaScript values\<close>

text \<open>
  The middleware of \<^verbatim>\<open>src/index.ts\<close> handles option values and header values that are
  \<^verbatim>\<open>undefined\<close>, booleans, numbers, strings or arrays of strings (the types the
  interface \<^verbatim>\<open>CorsOptions\<close> admits). Numbers are the integers: \<^verbatim>\<open>maxAge\<close> is a
  number of seconds. JavaScript numbers are doubles; a fractional number has no value
  here, and \<^verbatim>\<open>String\<close> below is JavaScript's only for integers of magnitude under
  \<^verbatim>\<open>1e21\<close>, which it prints as plain digits.
\<close>

datatype jsval =
    JUndefined
  | JBool bool
  | JNum int
  | JStr string
  | JArr "string list"

text \<open>JavaScript's truthiness, as used by \<^verbatim>\<open>if (x)\<close>, \<^verbatim>\<open>!x\<close> and \<^verbatim>\<open>!!x\<close>.\<close>

fun truthy :: "jsval \<Rightarrow> bool" where
  "truthy JUndefined = False"
| "truthy (JBool b) = b"
| "truthy (JNum n) = (n \<noteq> 0)"
| "truthy (JStr s) = (s \<noteq> [])"
| "truthy (JArr xs) = True"

text \<open>\<^verbatim>\<open>x.length === 0\<close>: strings and arrays have a length; on a boolean or a number the
  property is \<^verbatim>\<open>undefined\<close>, which is not \<^verbatim>\<open>0\<close>. The source evaluates it only
  behind \<^verbatim>\<open>!x ||\<close>, hence never on \<^verbatim>\<open>undefined\<close>.\<close>

fun length_is_zero :: "jsval \<Rightarrow> bool" where
  "length_is_zero (JStr s) = (length s = 0)"
| "length_is_zero (JArr xs) = (length xs = 0)"
| "length_is_zero _ = False"

text \<open>\<^verbatim>\<open>xs.join(sep)\<close> on an array of strings.\<close>

fun array_join :: "string list \<Rightarrow> string \<Rightarrow> string" where
  "array_join [] sep = []"
| "array_join [x] sep = x"
| "array_join (x # y # ys) sep = x @ sep @ array_join (y # ys) sep"

text \<open>Decimal digits of a natural number, most significant first.\<close>

fun digits :: "nat \<Rightarrow> string" where
  "digits n =
     (if n < 10 then [char_of (48 + n)]
      else digits (n div 10) @ [char_of (48 + n mod 10)])"

declare digits.simps [simp del]

text \<open>\<^verbatim>\<open>String(x)\<close>.\<close>

fun String :: "jsval \<Rightarrow> string" where
  "String JUndefined = ''undefined''"
| "String (JBool b) = (if b then ''true'' else ''false'')"
| "String (JNum n) = (if n < 0 then ''-'' @ digits (nat (- n)) else digits (nat n))"
| "String (JStr s) = s"
| "String (JArr xs) = array_join xs '',''"

text \<open>\<^verbatim>\<open>x > 0\<close>. The interface types \<^verbatim>\<open>maxAge\<close> as a number, and the source compares
  it only behind \<^verbatim>\<open>maxAge &&\<close>; a boolean compares as 0 or 1. Strings and arrays are
  outside the interface's type for \<^verbatim>\<open>maxAge\<close> and compare as false here.\<close>

fun gt_zero :: "jsval \<Rightarrow> bool" where
  "gt_zero (JNum n) = (0 < n)"
| "gt_zero (JBool b) = b"
| "gt_zero _ = False"

section \<open>Options and their resolution (function \<^verbatim>\<open>cors\<close>)\<close>

text \<open>
  An options object is a finite map from property names to values. A key can be missing,
  or present and hold \<^verbatim>\<open>undefined\<close>: the object spread \<^verbatim>\<open>{ ...a, ...b }\<close> copies every
  own property of \<^verbatim>\<open>b\<close> over \<^verbatim>\<open>a\<close>, also one that holds \<^verbatim>\<open>undefined\<close>, so the two
  are not the same configuration.
\<close>

type_synonym CorsOptions = "string \<rightharpoonup> jsval"

definition defaultOptions :: CorsOptions where
  "defaultOptions =
     [''expressify'' \<mapsto> JBool True,
      ''credentials'' \<mapsto> JBool False,
      ''allowMethods'' \<mapsto> JStr ''GET,HEAD,PATCH,PUT,POST,DELETE'',
      ''maxAge'' \<mapsto> JNum 0]"

text \<open>\<^verbatim>\<open>...options\<close> where \<^verbatim>\<open>options\<close> may be \<^verbatim>\<open>undefined\<close> (the parameter is optional):
  spreading \<^verbatim>\<open>undefined\<close> adds nothing.\<close>

definition spread :: "CorsOptions option \<Rightarrow> CorsOptions" where
  "spread options = (case options of None \<Rightarrow> Map.empty | Some m \<Rightarrow> m)"

text \<open>Reading a property: \<^verbatim>\<open>undefined\<close> when the key is missing.\<close>

definition get_prop :: "CorsOptions \<Rightarrow> string \<Rightarrow> jsval" where
  "get_prop obj k = (case obj k of None \<Rightarrow> JUndefined | Some v \<Rightarrow> v)"

text \<open>
  The variables that \<^verbatim>\<open>cors\<close> declares with \<^verbatim>\<open>let\<close> and that the returned handler
  closes over. They live as long as the middleware instance, and every invocation of the
  handler reads (and may assign) the same variables.
\<close>

record closure =
  expressify :: jsval
  credentials :: jsval
  origins :: jsval
  allowMethods :: jsval
  maxAge :: jsval
  allowHeaders :: jsval
  exposeHeaders :: jsval

text \<open>\<^verbatim>\<open>if (Array.isArray(x)) x = x.join(',')\<close>.\<close>

definition join_if_array :: "jsval \<Rightarrow> jsval" where
  "join_if_array x = (case x of JArr xs \<Rightarrow> JStr (array_join xs '','') | _ \<Rightarrow> x)"

text \<open>
  The body of \<^verbatim>\<open>cors\<close> before \<^verbatim>\<open>main\<close> is declared (lines 38 to 45): merge the defaults,
  destructure, join \<^verbatim>\<open>exposeHeaders\<close>, \<^verbatim>\<open>allowMethods\<close> and \<^verbatim>\<open>allowHeaders\<close> when they are
  arrays, and coerce \<^verbatim>\<open>credentials\<close> with \<^verbatim>\<open>!!\<close>. Nothing is done to \<^verbatim>\<open>origins\<close>.
\<close>

definition cors :: "CorsOptions option \<Rightarrow> closure" where
  "cors options =
     (let options = defaultOptions ++ spread options in
      \<lparr> expressify = get_prop options ''expressify'',
        credentials = JBool (truthy (get_prop options ''credentials'')),
        origins = get_prop options ''origins'',
        allowMethods = join_if_array (get_prop options ''allowMethods''),
        maxAge = get_prop options ''maxAge'',
        allowHeaders = join_if_array (get_prop options ''allowHeaders''),
        exposeHeaders = join_if_array (get_prop options ''exposeHeaders'') \<rparr>)"

section \<open>The request and the calls on the response\<close>

text \<open>
  Modelled from the spec: the request view of \<^verbatim>\<open>@macchiatojs/kernel\<close> (not part of this
  repository) gives read-only access to the method and to the request headers.
  \<^verbatim>\<open>request.get(name)\<close> is the header's value, \<^verbatim>\<open>undefined\<close> when the header is absent.
\<close>

record request =
  req_method :: string
  req_headers :: "string \<rightharpoonup> string"

definition request_get :: "request \<Rightarrow> string \<Rightarrow> jsval" where
  "request_get request name =
     (case req_headers request name of None \<Rightarrow> JUndefined | Some v \<Rightarrow> JStr v)"

text \<open>
  What \<^verbatim>\<open>main\<close> does to the outside: calls of \<^verbatim>\<open>response.vary\<close>, \<^verbatim>\<open>response.set\<close>,
  \<^verbatim>\<open>response.send\<close> and of the continuation \<^verbatim>\<open>next\<close>. An invocation is described by the
  list of these calls in program order.
\<close>

datatype call =
    ResponseVary string
  | ResponseSet string jsval
  | ResponseSend nat string
  | CallNext

section \<open>The handler (function \<^verbatim>\<open>main\<close>)\<close>

text \<open>
  One invocation of \<^verbatim>\<open>main\<close> (lines 47 to 72) on the closure variables \<open>cl\<close>: the
  closure variables after the invocation and the calls made. The assignment of line 68 is
  to the closure variable \<^verbatim>\<open>allowHeaders\<close>, so it is part of the returned closure.
  Both \<^verbatim>\<open>next()\<close> are in return position: nothing follows them. The function that
  \<^verbatim>\<open>cors\<close> returns (lines 74 to 78) hands its request and response to \<^verbatim>\<open>main\<close> under
  either calling convention; \<^verbatim>\<open>expressify\<close> selects the convention and nothing else.
  Header names are written as the source writes them.
\<close>

definition main :: "closure \<Rightarrow> request \<Rightarrow> closure \<times> call list" where
  "main cl request =
     (let requestOrigin = request_get request ''Origin'' in
      if \<not> truthy requestOrigin \<or> length_is_zero requestOrigin then (cl, [CallNext])
      else
        let origin = (if origins cl \<noteq> JUndefined then origins cl else requestOrigin);
            t = [ResponseVary ''Origin'',
                 ResponseSet ''Access-Control-Allow-Origin'' origin]
                @ (if truthy (credentials cl)
                   then [ResponseSet ''Access-Control-Allow-Credentials'' (JStr ''true'')]
                   else [])
        in
        if req_method request \<noteq> ''OPTIONS''
           \<or> \<not> truthy (request_get request ''Access-Control-Request-Method'')
        then
          (cl,
           t @ (if truthy (exposeHeaders cl)
                then [ResponseSet ''Access-Control-Expose-Headers'' (exposeHeaders cl)]
                else [])
             @ [CallNext])
        else
          let t = t @ (if truthy (allowMethods cl)
                       then [ResponseSet ''Access-Control-Allow-Methods'' (allowMethods cl)]
                       else []);
              cl = (if \<not> truthy (allowHeaders cl)
                    then cl\<lparr>allowHeaders :=
                             request_get request ''Access-Control-Request-Headers''\<rparr>
                    else cl);
              t = t @ (if truthy (allowHeaders cl)
                       then [ResponseSet ''Access-Control-Allow-Headers'' (allowHeaders cl)]
                       else []);
              t = t @ (if truthy (maxAge cl) \<and> gt_zero (maxAge cl)
                       then [ResponseSet ''Access-Control-Max-Age'' (JStr (String (maxAge cl)))]
                       else [])
          in (cl, t @ [ResponseSend 204 '''']))"

text \<open>
  A middleware instance serving a sequence of requests: each invocation starts from the
  closure variables the previous one left.
\<close>

fun serve :: "closure \<Rightarrow> request list \<Rightarrow> call list list" where
  "serve cl [] = []"
| "serve cl (r # rs) = snd (main cl r) # serve (fst (main cl r)) rs"

fun closure_after :: "closure \<Rightarrow> request list \<Rightarrow> closure" where
  "closure_after cl [] = cl"
| "closure_after cl (r # rs) = closure_after (fst (main cl r)) rs"

section \<open>The response\<close>

text \<open>
  Modelled from the spec: the response view of \<^verbatim>\<open>@macchiatojs/kernel\<close> (not part of this
  repository) is mutable; it supports setting a header value, appending to \<^verbatim>\<open>Vary\<close>, and
  short-circuiting with a status code and a body. \<open>next_calls\<close> counts the hand-offs to the
  continuation; what the later stages of the pipeline do is not the middleware's.
\<close>

record exchange =
  res_headers :: "string \<rightharpoonup> jsval"
  res_status :: nat
  res_body :: "string option"
  next_calls :: nat

text \<open>Modelled from the spec: \<^verbatim>\<open>response.set(name, value)\<close> sets the header to the value it
  is given.\<close>

definition response_set :: "string \<Rightarrow> jsval \<Rightarrow> exchange \<Rightarrow> exchange" where
  "response_set name v ex = ex\<lparr>res_headers := (res_headers ex)(name \<mapsto> v)\<rparr>"

text \<open>
  Modelled from the spec: \<^verbatim>\<open>response.vary\<close> is additive. If \<^verbatim>\<open>Vary\<close> already has other
  values the field is appended, comma-space joined, never overwriting existing values; if
  the header is absent it is set to the field.
\<close>

definition response_vary :: "string \<Rightarrow> exchange \<Rightarrow> exchange" where
  "response_vary field ex =
     ex\<lparr>res_headers := (res_headers ex)(''Vary'' \<mapsto>
          (case res_headers ex ''Vary'' of
             None \<Rightarrow> JStr field
           | Some v \<Rightarrow> JStr (String v @ '', '' @ field)))\<rparr>"

text \<open>Modelled from the spec: \<^verbatim>\<open>response.send(code, body)\<close> short-circuits the exchange
  with a status code and a body.\<close>

definition response_send :: "nat \<Rightarrow> string \<Rightarrow> exchange \<Rightarrow> exchange" where
  "response_send code b ex = ex\<lparr>res_status := code, res_body := Some b\<rparr>"

text \<open>The effect of one call, and of the calls of an invocation in order.\<close>

fun perform_call :: "call \<Rightarrow> exchange \<Rightarrow> exchange" where
  "perform_call (ResponseVary field) ex = response_vary field ex"
| "perform_call (ResponseSet name v) ex = response_set name v ex"
| "perform_call (ResponseSend code b) ex = response_send code b ex"
| "perform_call CallNext ex = ex\<lparr>next_calls := next_calls ex + 1\<rparr>"

fun perform :: "call list \<Rightarrow> exchange \<Rightarrow> exchange" where
  "perform [] ex = ex"
| "perform (c # cs) ex = perform cs (perform_call c ex)"

section \<open>Vocabulary of the properties\<close>

text \<open>A request header is present and non-empty.\<close>

definition header_nonempty :: "request \<Rightarrow> string \<Rightarrow> bool" where
  "header_nonempty r name =
     (case req_headers r name of None \<Rightarrow> False | Some v \<Rightarrow> v \<noteq> [])"

text \<open>
  Two closures are alike when they agree on every variable, except that a list option may
  be falsy in both with different falsy values (the empty string on one side,
  \<^verbatim>\<open>undefined\<close> on the other).
\<close>

definition same_or_falsy :: "jsval \<Rightarrow> jsval \<Rightarrow> bool" where
  "same_or_falsy a b = (a = b \<or> (\<not> truthy a \<and> \<not> truthy b))"

definition alike :: "closure \<Rightarrow> closure \<Rightarrow> bool" where
  "alike c d =
     (expressify c = expressify d \<and> credentials c = credentials d
      \<and> origins c = origins d \<and> maxAge c = maxAge d
      \<and> same_or_falsy (allowMethods c) (allowMethods d)
      \<and> same_or_falsy (allowHeaders c) (allowHeaders d)
      \<and> same_or_falsy (exposeHeaders c) (exposeHeaders d))"

section \<open>The three paths of the handler\<close>

lemma truthy_request_get: "truthy (request_get r name) = header_nonempty r name"
  by (simp add: request_get_def header_nonempty_def split: option.splits)

lemma length_is_zero_request_get:
  "length_is_zero (request_get r name) \<Longrightarrow> \<not> header_nonempty r name"
  by (simp add: request_get_def header_nonempty_def split: option.splits)

lemma main_no_origin:
  "\<not> header_nonempty r ''Origin'' \<Longrightarrow> main cl r = (cl, [CallNext])"
  by (simp add: main_def truthy_request_get)

lemma main_simple:
  assumes "header_nonempty r ''Origin''"
    and "req_method r \<noteq> ''OPTIONS'' \<or> \<not> header_nonempty r ''Access-Control-Request-Method''"
  shows "main cl r =
    (cl,
     [ResponseVary ''Origin'',
      ResponseSet ''Access-Control-Allow-Origin''
        (if origins cl \<noteq> JUndefined then origins cl else request_get r ''Origin'')]
     @ (if truthy (credentials cl)
        then [ResponseSet ''Access-Control-Allow-Credentials'' (JStr ''true'')] else [])
     @ (if truthy (exposeHeaders cl)
        then [ResponseSet ''Access-Control-Expose-Headers'' (exposeHeaders cl)] else [])
     @ [CallNext])"
  using assms length_is_zero_request_get[of r "''Origin''"]
  by (auto simp add: main_def Let_def truthy_request_get)

lemma main_preflight:
  assumes "header_nonempty r ''Origin''"
    and "req_method r = ''OPTIONS''" and "header_nonempty r ''Access-Control-Request-Method''"
  shows "main cl r =
    (if truthy (allowHeaders cl) then cl
     else cl\<lparr>allowHeaders := request_get r ''Access-Control-Request-Headers''\<rparr>,
     [ResponseVary ''Origin'',
      ResponseSet ''Access-Control-Allow-Origin''
        (if origins cl \<noteq> JUndefined then origins cl else request_get r ''Origin'')]
     @ (if truthy (credentials cl)
        then [ResponseSet ''Access-Control-Allow-Credentials'' (JStr ''true'')] else [])
     @ (if truthy (allowMethods cl)
        then [ResponseSet ''Access-Control-Allow-Methods'' (allowMethods cl)] else [])
     @ (if truthy (allowHeaders cl)
        then [ResponseSet ''Access-Control-Allow-Headers'' (allowHeaders cl)]
        else if header_nonempty r ''Access-Control-Request-Headers''
        then [ResponseSet ''Access-Control-Allow-Headers''
                (request_get r ''Access-Control-Request-Headers'')]
        else [])
     @ (if truthy (maxAge cl) \<and> gt_zero (maxAge cl)
        then [ResponseSet ''Access-Control-Max-Age'' (JStr (String (maxAge cl)))] else [])
     @ [ResponseSend 204 ''''])"
  using assms length_is_zero_request_get[of r "''Origin''"]
  by (auto simp add: main_def Let_def truthy_request_get)

text \<open>Every request takes exactly one of the three paths.\<close>

lemma main_paths:
  obtains (no_origin) "\<not> header_nonempty r ''Origin''"
  | (simple) "header_nonempty r ''Origin''"
      "req_method r \<noteq> ''OPTIONS'' \<or> \<not> header_nonempty r ''Access-Control-Request-Method''"
  | (preflight) "header_nonempty r ''Origin''" "req_method r = ''OPTIONS''"
      "header_nonempty r ''Access-Control-Request-Method''"
  by blast

section \<open>What an invocation leaves of the closure\<close>

text \<open>The only closure variable \<^verbatim>\<open>main\<close> assigns is \<^verbatim>\<open>allowHeaders\<close>.\<close>

lemma main_closure:
  "fst (main cl r) = cl\<lparr>allowHeaders := allowHeaders (fst (main cl r))\<rparr>"
  by (cases r rule: main_paths) (simp_all add: main_no_origin main_simple main_preflight)

lemma main_keeps:
  "origins (fst (main cl r)) = origins cl"
  "credentials (fst (main cl r)) = credentials cl"
  "allowMethods (fst (main cl r)) = allowMethods cl"
  "exposeHeaders (fst (main cl r)) = exposeHeaders cl"
  "maxAge (fst (main cl r)) = maxAge cl"
  "expressify (fst (main cl r)) = expressify cl"
  by (cases r rule: main_paths; simp add: main_no_origin main_simple main_preflight)+

lemma closure_after_keeps:
  "origins (closure_after cl rs) = origins cl"
  "credentials (closure_after cl rs) = credentials cl"
  "allowMethods (closure_after cl rs) = allowMethods cl"
  "exposeHeaders (closure_after cl rs) = exposeHeaders cl"
  "maxAge (closure_after cl rs) = maxAge cl"
  "expressify (closure_after cl rs) = expressify cl"
  by (induction rs arbitrary: cl; simp add: main_keeps)+

text \<open>The \<open>i\<close>-th invocation of a served sequence runs on the closure the first \<open>i\<close> left.\<close>

lemma serve_nth:
  "i < length rs \<Longrightarrow> serve cl rs ! i = snd (main (closure_after cl (take i rs)) (rs ! i))"
proof (induction rs arbitrary: cl i)
  case Nil
  then show ?case by simp
next
  case (Cons r rs)
  then show ?case by (cases i) simp_all
qed

lemma length_serve: "length (serve cl rs) = length rs"
  by (induction rs arbitrary: cl) simp_all

section \<open>Replaying calls on a response\<close>

lemma perform_append: "perform (xs @ ys) ex = perform ys (perform xs ex)"
  by (induction xs arbitrary: ex) simp_all

section \<open>What construction resolves\<close>

lemma cors_origins: "origins (cors opts) = get_prop (spread opts) ''origins''"
  by (simp add: cors_def defaultOptions_def get_prop_def map_add_def split: option.splits)

lemma cors_credentials:
  "credentials (cors opts) = JBool (truthy (get_prop (spread opts) ''credentials''))"
  by (simp add: cors_def defaultOptions_def get_prop_def map_add_def split: option.splits)



lemma cors_allowHeaders_unset:
  "get_prop (spread opts) ''allowHeaders'' = JUndefined
   \<Longrightarrow> allowHeaders (cors opts) = JUndefined"
  by (simp add: cors_def defaultOptions_def get_prop_def map_add_def join_if_array_def
      split: option.splits)

section \<open>Closures that are alike serve alike\<close>

lemma same_or_falsy_set:
  "same_or_falsy a b \<Longrightarrow>
   (if truthy a then [ResponseSet n a] else []) = (if truthy b then [ResponseSet n b] else [])"
  by (auto simp add: same_or_falsy_def)

lemma same_or_falsy_set_else:
  "same_or_falsy a b \<Longrightarrow>
   (if truthy a then [ResponseSet n a] else xs) = (if truthy b then [ResponseSet n b] else xs)"
  by (auto simp add: same_or_falsy_def)

lemma alike_assign:
  "alike c d \<Longrightarrow>
   alike (if truthy (allowHeaders c) then c else c\<lparr>allowHeaders := x\<rparr>)
         (if truthy (allowHeaders d) then d else d\<lparr>allowHeaders := x\<rparr>)"
  by (auto simp add: alike_def same_or_falsy_def)

lemma alike_main:
  assumes "alike c d"
  shows "snd (main c r) = snd (main d r) \<and> alike (fst (main c r)) (fst (main d r))"
proof -
  from assms have e: "credentials c = credentials d" "origins c = origins d"
    "maxAge c = maxAge d"
    and m: "same_or_falsy (allowMethods c) (allowMethods d)"
    and h: "same_or_falsy (allowHeaders c) (allowHeaders d)"
    and x: "same_or_falsy (exposeHeaders c) (exposeHeaders d)"
    by (simp_all add: alike_def)
  show ?thesis
  proof (cases r rule: main_paths)
    case no_origin
    with assms show ?thesis by (simp add: main_no_origin)
  next
    case simple
    with assms show ?thesis
      by (simp add: main_simple e same_or_falsy_set[OF x])
  next
    case preflight
    with assms show ?thesis
      by (simp add: main_preflight e same_or_falsy_set[OF m] same_or_falsy_set_else[OF h]
          alike_assign)
  qed
qed

lemma alike_serve: "alike c d \<Longrightarrow> serve c rs = serve d rs"
proof (induction rs arbitrary: c d)
  case Nil
  then show ?case by simp
next
  case (Cons r rs)
  from alike_main[OF Cons.prems, of r]
  have "snd (main c r) = snd (main d r)" and "alike (fst (main c r)) (fst (main d r))"
    by simp_all
  with Cons.IH show ?case by simp
qed

lemma alike_closure_after: "alike c d \<Longrightarrow> alike (closure_after c rs) (closure_after d rs)"
proof (induction rs arbitrary: c d)
  case Nil
  then show ?case by simp
next
  case (Cons r rs)
  from alike_main[OF Cons.prems, of r] have "alike (fst (main c r)) (fst (main d r))"
    by simp
  with Cons.IH show ?case by simp
qed

lemma cors_empty_list_alike:
  assumes "k = ''allowMethods'' \<or> k = ''allowHeaders'' \<or> k = ''exposeHeaders''"
  shows "alike (cors (Some (m(k \<mapsto> JArr [])))) (cors (Some (m(k \<mapsto> JUndefined))))"
  using assms
  by (elim disjE; simp add: alike_def same_or_falsy_def cors_def spread_def get_prop_def
      join_if_array_def map_add_def defaultOptions_def)

lemmas perform_defs = perform_append response_set_def response_vary_def response_send_def

section \<open>Requests without Origin\<close>

text \<open>
  C4. For every request whose Origin header is absent or an empty string, the handler makes
  no call on the response (no header is set, the response is unchanged), leaves the closure
  as it was, and calls the continuation exactly once: the invocation consists of the single
  call of \<^verbatim>\<open>next\<close>. A present but empty Origin is handled like an absent one.
\<close>

theorem C4_no_origin_passthrough:
  assumes "req_headers r ''Origin'' = None \<or> req_headers r ''Origin'' = Some ''''"
  shows "main cl r = (cl, [CallNext])
       \<and> perform (snd (main cl r)) ex = ex\<lparr>next_calls := next_calls ex + 1\<rparr>"
proof -
  from assms have "\<not> header_nonempty r ''Origin''"
    by (auto simp add: header_nonempty_def)
  then have "main cl r = (cl, [CallNext])"
    by (rule main_no_origin)
  then show ?thesis by simp
qed

text \<open>C4 at a GET request with no header at all, and at an OPTIONS request whose Origin is
  the empty string.\<close>

theorem C4_no_origin_passthrough_witness:
  "main (cors None) \<lparr>req_method = ''GET'', req_headers = Map.empty\<rparr> = (cors None, [CallNext])
   \<and> main (cors None)
        \<lparr>req_method = ''OPTIONS'',
         req_headers = [''Origin'' \<mapsto> '''', ''Access-Control-Request-Method'' \<mapsto> ''PUT'']\<rparr>
      = (cors None, [CallNext])"
proof -
  have a: "req_headers \<lparr>req_method = ''GET'', req_headers = Map.empty\<rparr> ''Origin'' = None
         \<or> req_headers \<lparr>req_method = ''GET'', req_headers = Map.empty\<rparr> ''Origin'' = Some ''''"
    by simp
  have b: "req_headers \<lparr>req_method = ''OPTIONS'',
             req_headers = [''Origin'' \<mapsto> '''',
                            ''Access-Control-Request-Method'' \<mapsto> ''PUT'']\<rparr> ''Origin'' = None
         \<or> req_headers \<lparr>req_method = ''OPTIONS'',
             req_headers = [''Origin'' \<mapsto> '''',
                            ''Access-Control-Request-Method'' \<mapsto> ''PUT'']\<rparr> ''Origin'' = Some ''''"
    by simp
  from C4_no_origin_passthrough[OF a] C4_no_origin_passthrough[OF b] show ?thesis by blast
qed

section \<open>Preflight detection\<close>

text \<open>
  C3 as stated fails: an OPTIONS request that carries Access-Control-Request-Method but no
  Origin is a preflight by the claim's definition, yet the handler takes the early exit of
  line 51: it calls the continuation and sends nothing.
\<close>

theorem C3_preflight_without_origin:
  "req_method \<lparr>req_method = ''OPTIONS'',
           req_headers = [''Access-Control-Request-Method'' \<mapsto> ''PUT'']\<rparr> = ''OPTIONS''
   \<and> req_headers \<lparr>req_method = ''OPTIONS'',
           req_headers = [''Access-Control-Request-Method'' \<mapsto> ''PUT'']\<rparr>
        ''Access-Control-Request-Method'' = Some ''PUT''
   \<and> snd (main (cors None)
        \<lparr>req_method = ''OPTIONS'',
         req_headers = [''Access-Control-Request-Method'' \<mapsto> ''PUT'']\<rparr>) = [CallNext]"
  by (simp add: main_def request_get_def)

text \<open>
  C3 (amended). A request is answered as a preflight iff its Origin header is present and
  non-empty, its method is OPTIONS and its Access-Control-Request-Method header is present
  and non-empty. Every such request ends with \<^verbatim>\<open>response.send(204, '')\<close> (status 204,
  empty body) and the continuation is not called. Every other request (no Origin, another
  method, or OPTIONS without Access-Control-Request-Method) ends with the one call of the
  continuation and the handler sends no status.
\<close>

theorem C3_preflight_branch:
  "(header_nonempty r ''Origin'' \<and> req_method r = ''OPTIONS''
      \<and> header_nonempty r ''Access-Control-Request-Method''
    \<longrightarrow> last (snd (main cl r)) = ResponseSend 204 ''''
        \<and> CallNext \<notin> set (snd (main cl r))
        \<and> res_status (perform (snd (main cl r)) ex) = 204
        \<and> res_body (perform (snd (main cl r)) ex) = Some ''''
        \<and> next_calls (perform (snd (main cl r)) ex) = next_calls ex)
   \<and> (\<not> (header_nonempty r ''Origin'' \<and> req_method r = ''OPTIONS''
          \<and> header_nonempty r ''Access-Control-Request-Method'')
    \<longrightarrow> last (snd (main cl r)) = CallNext
        \<and> count_list (snd (main cl r)) CallNext = 1
        \<and> (\<forall>code b. ResponseSend code b \<notin> set (snd (main cl r)))
        \<and> res_status (perform (snd (main cl r)) ex) = res_status ex
        \<and> res_body (perform (snd (main cl r)) ex) = res_body ex
        \<and> next_calls (perform (snd (main cl r)) ex) = next_calls ex + 1)"
proof (cases r rule: main_paths)
  case no_origin
  then show ?thesis by (simp add: main_no_origin)
next
  case simple
  then show ?thesis by (auto simp add: main_simple perform_defs)
next
  case preflight
  then show ?thesis by (simp add: main_preflight perform_defs)
qed

text \<open>C3 (amended) at the preflight of the test suite, and at the same OPTIONS request
  without Access-Control-Request-Method.\<close>

theorem C3_preflight_branch_witness:
  "last (snd (main (cors None)
      \<lparr>req_method = ''OPTIONS'',
       req_headers = [''Origin'' \<mapsto> ''http://koajs.com'',
                      ''Access-Control-Request-Method'' \<mapsto> ''PUT'']\<rparr>)) = ResponseSend 204 ''''
   \<and> res_status (perform (snd (main (cors None)
      \<lparr>req_method = ''OPTIONS'',
       req_headers = [''Origin'' \<mapsto> ''http://koajs.com'',
                      ''Access-Control-Request-Method'' \<mapsto> ''PUT'']\<rparr>))
      \<lparr>res_headers = Map.empty, res_status = 404, res_body = None, next_calls = 0\<rparr>) = 204
   \<and> count_list (snd (main (cors None)
      \<lparr>req_method = ''OPTIONS'',
       req_headers = [''Origin'' \<mapsto> ''http://koajs.com'']\<rparr>)) CallNext = 1
   \<and> res_status (perform (snd (main (cors None)
      \<lparr>req_method = ''OPTIONS'',
       req_headers = [''Origin'' \<mapsto> ''http://koajs.com'']\<rparr>))
      \<lparr>res_headers = Map.empty, res_status = 404, res_body = None, next_calls = 0\<rparr>) = 404"
  using
    C3_preflight_branch[of
      "\<lparr>req_method = ''OPTIONS'',
        req_headers = [''Origin'' \<mapsto> ''http://koajs.com'',
                       ''Access-Control-Request-Method'' \<mapsto> ''PUT'']\<rparr>"
      "cors None"
      "\<lparr>res_headers = Map.empty, res_status = 404, res_body = None, next_calls = 0\<rparr>"]
    C3_preflight_branch[of
      "\<lparr>req_method = ''OPTIONS'', req_headers = [''Origin'' \<mapsto> ''http://koajs.com'']\<rparr>"
      "cors None"
      "\<lparr>res_headers = Map.empty, res_status = 404, res_body = None, next_calls = 0\<rparr>"]
  by (simp add: header_nonempty_def)

section \<open>Headers set on every request with an Origin\<close>

text \<open>
  C5. For every request with a non-empty Origin header, at any point of the life of a
  middleware instance, the handler sets Access-Control-Allow-Origin exactly once: to the
  configured \<^verbatim>\<open>origins\<close> value when that option is set (not \<^verbatim>\<open>undefined\<close>), and
  otherwise to the request's Origin value verbatim. With \<^verbatim>\<open>origins = "*"\<close> the header
  is \<^verbatim>\<open>*\<close> whatever the request's Origin.
\<close>

theorem C5_allow_origin:
  assumes "req_headers r ''Origin'' = Some v" and "v \<noteq> []"
  shows "ResponseSet ''Access-Control-Allow-Origin''
           (if get_prop (spread opts) ''origins'' \<noteq> JUndefined
            then get_prop (spread opts) ''origins'' else JStr v)
         \<in> set (snd (main (closure_after (cors opts) rs) r))
       \<and> (\<forall>w. ResponseSet ''Access-Control-Allow-Origin'' w
                 \<in> set (snd (main (closure_after (cors opts) rs) r))
              \<longrightarrow> w = (if get_prop (spread opts) ''origins'' \<noteq> JUndefined
                       then get_prop (spread opts) ''origins'' else JStr v))
       \<and> res_headers (perform (snd (main (closure_after (cors opts) rs) r)) ex)
           ''Access-Control-Allow-Origin''
         = Some (if get_prop (spread opts) ''origins'' \<noteq> JUndefined
                 then get_prop (spread opts) ''origins'' else JStr v)"
proof -
  let ?cl = "closure_after (cors opts) rs"
  have o: "origins ?cl = get_prop (spread opts) ''origins''"
    by (simp add: closure_after_keeps cors_origins)
  have h: "header_nonempty r ''Origin''"
    using assms by (simp add: header_nonempty_def)
  have g: "request_get r ''Origin'' = JStr v"
    using assms by (simp add: request_get_def)
  show ?thesis
  proof (cases r rule: main_paths)
    case no_origin
    with h show ?thesis by simp
  next
    case simple
    then show ?thesis by (simp add: main_simple perform_defs o g)
  next
    case preflight
    then show ?thesis by (simp add: main_preflight perform_defs o g)
  qed
qed

text \<open>C5 at a GET request from \<^verbatim>\<open>http://koajs.com\<close>: with \<^verbatim>\<open>origins: '*'\<close> the header
  is \<^verbatim>\<open>*\<close>, with no options it is the request's Origin.\<close>

theorem C5_allow_origin_witness:
  "res_headers
     (perform (snd (main (closure_after (cors (Some [''origins'' \<mapsto> JStr ''*''])) [])
                     \<lparr>req_method = ''GET'',
                      req_headers = [''Origin'' \<mapsto> ''http://koajs.com'']\<rparr>))
        \<lparr>res_headers = Map.empty, res_status = 404, res_body = None, next_calls = 0\<rparr>)
     ''Access-Control-Allow-Origin'' = Some (JStr ''*'')
   \<and> res_headers
     (perform (snd (main (closure_after (cors None) [])
                     \<lparr>req_method = ''GET'',
                      req_headers = [''Origin'' \<mapsto> ''http://koajs.com'']\<rparr>))
        \<lparr>res_headers = Map.empty, res_status = 404, res_body = None, next_calls = 0\<rparr>)
     ''Access-Control-Allow-Origin'' = Some (JStr ''http://koajs.com'')"
proof -
  have a: "req_headers \<lparr>req_method = ''GET'',
             req_headers = [''Origin'' \<mapsto> ''http://koajs.com'']\<rparr> ''Origin''
           = Some ''http://koajs.com''"
    by simp
  have b: "''http://koajs.com'' \<noteq> []"
    by simp
  from C5_allow_origin[OF a b, of "Some [''origins'' \<mapsto> JStr ''*'']" "[]"]
    C5_allow_origin[OF a b, of None "[]"]
  show ?thesis by (simp add: get_prop_def spread_def)
qed

text \<open>
  C6. For every request with a non-empty Origin header the first call of the handler is
  \<^verbatim>\<open>response.vary('Origin')\<close>, and no later call touches \<^verbatim>\<open>Vary\<close>. With
  \<^verbatim>\<open>response.vary\<close> as the spec describes it, a response whose \<^verbatim>\<open>Vary\<close> was
  \<^verbatim>\<open>Accept-Encoding\<close> ends with \<^verbatim>\<open>Accept-Encoding, Origin\<close> (the existing value is kept
  and \<^verbatim>\<open>Origin\<close> is appended, comma-space joined), and one without \<^verbatim>\<open>Vary\<close> ends
  with \<^verbatim>\<open>Origin\<close>.
\<close>

theorem C6_vary_origin:
  assumes "header_nonempty r ''Origin''"
  shows "(\<exists>rest. snd (main cl r) = ResponseVary ''Origin'' # rest
            \<and> (\<forall>f. ResponseVary f \<notin> set rest)
            \<and> (\<forall>w. ResponseSet ''Vary'' w \<notin> set rest))
       \<and> (res_headers ex ''Vary'' = None
            \<longrightarrow> res_headers (perform (snd (main cl r)) ex) ''Vary'' = Some (JStr ''Origin''))
       \<and> (res_headers ex ''Vary'' = Some (JStr ''Accept-Encoding'')
            \<longrightarrow> res_headers (perform (snd (main cl r)) ex) ''Vary''
                = Some (JStr ''Accept-Encoding, Origin''))
       \<and> (\<forall>s. res_headers ex ''Vary'' = Some (JStr s)
            \<longrightarrow> res_headers (perform (snd (main cl r)) ex) ''Vary''
                = Some (JStr (s @ '', Origin'')))"
proof (cases r rule: main_paths)
  case no_origin
  with assms show ?thesis by simp
next
  case simple
  then show ?thesis by (simp add: main_simple perform_defs)
next
  case preflight
  then show ?thesis by (simp add: main_preflight perform_defs)
qed

text \<open>C6 at the GET request of the test suite, on a response whose \<^verbatim>\<open>Vary\<close> an earlier
  middleware set to \<^verbatim>\<open>Accept-Encoding\<close>, and on a response without \<^verbatim>\<open>Vary\<close>.\<close>

theorem C6_vary_origin_witness:
  "res_headers
     (perform (snd (main (cors None)
                     \<lparr>req_method = ''GET'',
                      req_headers = [''Origin'' \<mapsto> ''http://koajs.com'']\<rparr>))
        \<lparr>res_headers = [''Vary'' \<mapsto> JStr ''Accept-Encoding''], res_status = 404,
         res_body = None, next_calls = 0\<rparr>)
     ''Vary'' = Some (JStr ''Accept-Encoding, Origin'')
   \<and> res_headers
     (perform (snd (main (cors None)
                     \<lparr>req_method = ''GET'',
                      req_headers = [''Origin'' \<mapsto> ''http://koajs.com'']\<rparr>))
        \<lparr>res_headers = Map.empty, res_status = 404, res_body = None, next_calls = 0\<rparr>)
     ''Vary'' = Some (JStr ''Origin'')"
proof -
  have a: "header_nonempty \<lparr>req_method = ''GET'',
             req_headers = [''Origin'' \<mapsto> ''http://koajs.com'']\<rparr> ''Origin''"
    by (simp add: header_nonempty_def)
  from C6_vary_origin[OF a, of "cors None"
      "\<lparr>res_headers = [''Vary'' \<mapsto> JStr ''Accept-Encoding''], res_status = 404,
        res_body = None, next_calls = 0\<rparr>"]
    C6_vary_origin[OF a, of "cors None"
      "\<lparr>res_headers = Map.empty, res_status = 404, res_body = None, next_calls = 0\<rparr>"]
  show ?thesis by simp
qed

text \<open>
  C7. For every request with a non-empty Origin header, at any point of the life of a
  middleware instance: if \<^verbatim>\<open>credentials\<close> is true, the handler sets
  Access-Control-Allow-Credentials to exactly the string \<^verbatim>\<open>true\<close>, on the simple and on
  the preflight path alike; if \<^verbatim>\<open>credentials\<close> is false or unset, the handler never sets
  that header (it stays as it was, and is never the string \<^verbatim>\<open>false\<close>).
\<close>

theorem C7_credentials:
  assumes "header_nonempty r ''Origin''"
  shows "(truthy (get_prop (spread opts) ''credentials'')
          \<longrightarrow> ResponseSet ''Access-Control-Allow-Credentials'' (JStr ''true'')
                \<in> set (snd (main (closure_after (cors opts) rs) r))
              \<and> res_headers (perform (snd (main (closure_after (cors opts) rs) r)) ex)
                  ''Access-Control-Allow-Credentials'' = Some (JStr ''true''))
       \<and> (\<not> truthy (get_prop (spread opts) ''credentials'')
          \<longrightarrow> (\<forall>w. ResponseSet ''Access-Control-Allow-Credentials'' w
                    \<notin> set (snd (main (closure_after (cors opts) rs) r)))
              \<and> res_headers (perform (snd (main (closure_after (cors opts) rs) r)) ex)
                  ''Access-Control-Allow-Credentials''
                = res_headers ex ''Access-Control-Allow-Credentials'')"
proof -
  let ?cl = "closure_after (cors opts) rs"
  have c: "credentials ?cl = JBool (truthy (get_prop (spread opts) ''credentials''))"
    by (simp add: closure_after_keeps cors_credentials)
  show ?thesis
  proof (cases r rule: main_paths)
    case no_origin
    with assms show ?thesis by simp
  next
    case simple
    then show ?thesis by (simp add: main_simple perform_defs c)
  next
    case preflight
    then show ?thesis by (simp add: main_preflight perform_defs c)
  qed
qed

text \<open>C7 with \<^verbatim>\<open>credentials: true\<close> at a simple request and at a preflight, and with no
  options at the same preflight.\<close>

theorem C7_credentials_witness:
  "res_headers
     (perform (snd (main (closure_after (cors (Some [''credentials'' \<mapsto> JBool True])) [])
                     \<lparr>req_method = ''GET'',
                      req_headers = [''Origin'' \<mapsto> ''http://koajs.com'']\<rparr>))
        \<lparr>res_headers = Map.empty, res_status = 404, res_body = None, next_calls = 0\<rparr>)
     ''Access-Control-Allow-Credentials'' = Some (JStr ''true'')
   \<and> res_headers
     (perform (snd (main (closure_after (cors (Some [''credentials'' \<mapsto> JBool True])) [])
                     \<lparr>req_method = ''OPTIONS'',
                      req_headers = [''Origin'' \<mapsto> ''http://koajs.com'',
                                     ''Access-Control-Request-Method'' \<mapsto> ''DELETE'']\<rparr>))
        \<lparr>res_headers = Map.empty, res_status = 404, res_body = None, next_calls = 0\<rparr>)
     ''Access-Control-Allow-Credentials'' = Some (JStr ''true'')
   \<and> res_headers
     (perform (snd (main (closure_after (cors None) [])
                     \<lparr>req_method = ''OPTIONS'',
                      req_headers = [''Origin'' \<mapsto> ''http://koajs.com'',
                                     ''Access-Control-Request-Method'' \<mapsto> ''DELETE'']\<rparr>))
        \<lparr>res_headers = Map.empty, res_status = 404, res_body = None, next_calls = 0\<rparr>)
     ''Access-Control-Allow-Credentials'' = None"
proof -
  have a: "header_nonempty \<lparr>req_method = ''GET'',
             req_headers = [''Origin'' \<mapsto> ''http://koajs.com'']\<rparr> ''Origin''"
    by (simp add: header_nonempty_def)
  have b: "header_nonempty \<lparr>req_method = ''OPTIONS'',
             req_headers = [''Origin'' \<mapsto> ''http://koajs.com'',
                            ''Access-Control-Request-Method'' \<mapsto> ''DELETE'']\<rparr> ''Origin''"
    by (simp add: header_nonempty_def)
  from C7_credentials[OF a, of "Some [''credentials'' \<mapsto> JBool True]" "[]"
      "\<lparr>res_headers = Map.empty, res_status = 404, res_body = None, next_calls = 0\<rparr>"]
    C7_credentials[OF b, of "Some [''credentials'' \<mapsto> JBool True]" "[]"
      "\<lparr>res_headers = Map.empty, res_status = 404, res_body = None, next_calls = 0\<rparr>"]
    C7_credentials[OF b, of None "[]"
      "\<lparr>res_headers = Map.empty, res_status = 404, res_body = None, next_calls = 0\<rparr>"]
  show ?thesis by (simp add: get_prop_def spread_def)
qed

section \<open>The closure variable \<^verbatim>\<open>allowHeaders\<close>\<close>

lemma main_allowHeaders:
  "allowHeaders (fst (main cl r)) = allowHeaders cl
   \<or> (\<not> truthy (allowHeaders cl)
      \<and> allowHeaders (fst (main cl r)) = request_get r ''Access-Control-Request-Headers'')"
  by (cases r rule: main_paths) (simp_all add: main_no_origin main_simple main_preflight)

lemma closure_after_allowHeaders:
  "allowHeaders (closure_after cl rs) = allowHeaders cl
   \<or> (\<not> truthy (allowHeaders cl)
      \<and> (\<exists>q\<in>set rs. allowHeaders (closure_after cl rs)
                        = request_get q ''Access-Control-Request-Headers''))"
proof (induction rs arbitrary: cl)
  case Nil
  then show ?case by simp
next
  case (Cons r rs)
  from Cons.IH[of "fst (main cl r)"] main_allowHeaders[of cl r]
  show ?case by auto
qed

lemma main_allow_headers_value:
  assumes "ResponseSet ''Access-Control-Allow-Headers'' w \<in> set (snd (main cl r))"
  shows "truthy w \<and> (w = allowHeaders cl \<or> w = request_get r ''Access-Control-Request-Headers'')"
proof (cases r rule: main_paths)
  case no_origin
  with assms show ?thesis by (simp add: main_no_origin)
next
  case simple
  with assms show ?thesis by (simp add: main_simple split: if_splits)
next
  case preflight
  with assms show ?thesis
    by (simp add: main_preflight truthy_request_get split: if_splits)
qed

lemma cors_empty_list:
  "allowMethods (cors (Some (m(''allowMethods'' \<mapsto> JArr [])))) = JStr ''''"
  "allowHeaders (cors (Some (m(''allowHeaders'' \<mapsto> JArr [])))) = JStr ''''"
  "exposeHeaders (cors (Some (m(''exposeHeaders'' \<mapsto> JArr [])))) = JStr ''''"
  by (simp_all add: cors_def Let_def spread_def get_prop_def join_if_array_def)

lemma cors_allowMethods:
  "allowMethods (cors opts) =
     (case spread opts ''allowMethods'' of
        None \<Rightarrow> JStr ''GET,HEAD,PATCH,PUT,POST,DELETE''
      | Some v \<Rightarrow> join_if_array v)"
  by (simp add: cors_def defaultOptions_def get_prop_def map_add_def join_if_array_def split: option.splits)

section \<open>Empty lists and explicit \<^verbatim>\<open>undefined\<close>\<close>

text \<open>
  What holds of an empty list. A configuration that gives the empty list for
  \<^verbatim>\<open>allowMethods\<close>, \<^verbatim>\<open>allowHeaders\<close> or \<^verbatim>\<open>exposeHeaders\<close> is accepted by \<^verbatim>\<open>cors\<close> (a
  total function: nothing in it raises), and on every sequence of requests the instance
  makes the same calls as the one configured with \<^verbatim>\<open>undefined\<close> for that option. No
  invocation sets Access-Control-Expose-Headers, resp. Access-Control-Allow-Methods, from
  the empty list. For \<^verbatim>\<open>allowHeaders\<close>, the first preflight of a new instance gets
  Access-Control-Allow-Headers from its own Access-Control-Request-Headers when that is
  non-empty and no such header otherwise; of a later invocation it holds only that the
  value set is a non-empty Access-Control-Request-Headers value of some request served so
  far, not necessarily its own.
\<close>

lemma empty_list_as_undefined:
  assumes "k = ''allowMethods'' \<or> k = ''allowHeaders'' \<or> k = ''exposeHeaders''"
  shows "serve (cors (Some (m(k \<mapsto> JArr [])))) rs = serve (cors (Some (m(k \<mapsto> JUndefined)))) rs
    \<and> (k = ''exposeHeaders'' \<longrightarrow>
         (\<forall>w. ResponseSet ''Access-Control-Expose-Headers'' w
               \<notin> set (snd (main (closure_after (cors (Some (m(k \<mapsto> JArr [])))) rs) r))))
    \<and> (k = ''allowMethods'' \<longrightarrow>
         (\<forall>w. ResponseSet ''Access-Control-Allow-Methods'' w
               \<notin> set (snd (main (closure_after (cors (Some (m(k \<mapsto> JArr [])))) rs) r))))
    \<and> (k = ''allowHeaders'' \<and> header_nonempty r ''Origin'' \<and> req_method r = ''OPTIONS''
          \<and> header_nonempty r ''Access-Control-Request-Method'' \<longrightarrow>
         (\<forall>w. ResponseSet ''Access-Control-Allow-Headers'' w
                 \<in> set (snd (main (cors (Some (m(k \<mapsto> JArr [])))) r))
               \<longleftrightarrow> header_nonempty r ''Access-Control-Request-Headers''
                   \<and> w = request_get r ''Access-Control-Request-Headers''))
    \<and> (k = ''allowHeaders'' \<longrightarrow>
         (\<forall>w. ResponseSet ''Access-Control-Allow-Headers'' w
                 \<in> set (snd (main (closure_after (cors (Some (m(k \<mapsto> JArr [])))) rs) r))
               \<longrightarrow> truthy w
                   \<and> (\<exists>q\<in>set (rs @ [r]). w = request_get q ''Access-Control-Request-Headers'')))"
proof -
  have 1: "serve (cors (Some (m(k \<mapsto> JArr [])))) rs
         = serve (cors (Some (m(k \<mapsto> JUndefined)))) rs"
    using assms by (intro alike_serve cors_empty_list_alike)
  have 2: "ResponseSet ''Access-Control-Expose-Headers'' w
             \<notin> set (snd (main (closure_after (cors (Some (m(k \<mapsto> JArr [])))) rs) r))"
    if "k = ''exposeHeaders''" for w
  proof -
    have "exposeHeaders (closure_after (cors (Some (m(k \<mapsto> JArr [])))) rs) = JStr ''''"
      using that by (simp add: closure_after_keeps cors_empty_list)
    then show ?thesis
      by (cases r rule: main_paths) (simp_all add: main_no_origin main_simple main_preflight)
  qed
  have 3: "ResponseSet ''Access-Control-Allow-Methods'' w
             \<notin> set (snd (main (closure_after (cors (Some (m(k \<mapsto> JArr [])))) rs) r))"
    if "k = ''allowMethods''" for w
  proof -
    have "allowMethods (closure_after (cors (Some (m(k \<mapsto> JArr [])))) rs) = JStr ''''"
      using that by (simp add: closure_after_keeps cors_empty_list)
    then show ?thesis
      by (cases r rule: main_paths) (simp_all add: main_no_origin main_simple main_preflight)
  qed
  have 4: "ResponseSet ''Access-Control-Allow-Headers'' w
             \<in> set (snd (main (cors (Some (m(k \<mapsto> JArr [])))) r))
           \<longleftrightarrow> header_nonempty r ''Access-Control-Request-Headers''
               \<and> w = request_get r ''Access-Control-Request-Headers''"
    if "k = ''allowHeaders''" "header_nonempty r ''Origin''" "req_method r = ''OPTIONS''"
      "header_nonempty r ''Access-Control-Request-Method''" for w
  proof -
    have "allowHeaders (cors (Some (m(k \<mapsto> JArr [])))) = JStr ''''"
      using that(1) by (simp add: cors_empty_list)
    then show ?thesis
      using that(2-4) by (auto simp add: main_preflight)
  qed
  have 5: "truthy w \<and> (\<exists>q\<in>set (rs @ [r]). w = request_get q ''Access-Control-Request-Headers'')"
    if "k = ''allowHeaders''"
      and s: "ResponseSet ''Access-Control-Allow-Headers'' w
             \<in> set (snd (main (closure_after (cors (Some (m(k \<mapsto> JArr [])))) rs) r))" for w
  proof -
    let ?c = "cors (Some (m(k \<mapsto> JArr [])))"
    have a: "allowHeaders ?c = JStr ''''"
      using that(1) by (simp add: cors_empty_list)
    from main_allow_headers_value[OF s]
    have t: "truthy w"
      and v: "w = allowHeaders (closure_after ?c rs)
            \<or> w = request_get r ''Access-Control-Request-Headers''"
      by simp_all
    from closure_after_allowHeaders[of ?c rs] a
    have "allowHeaders (closure_after ?c rs) = JStr ''''
        \<or> (\<exists>q\<in>set rs. allowHeaders (closure_after ?c rs)
                          = request_get q ''Access-Control-Request-Headers'')"
      by auto
    with t v show ?thesis by auto
  qed
  from 1 2 3 4 5 show ?thesis by blast
qed

text \<open>With \<^verbatim>\<open>allowHeaders: []\<close> on a new instance, the preflight of the test suite that
  asks for \<^verbatim>\<open>X-PINGOTHER\<close> gets that header back.\<close>

lemma empty_list_as_undefined_example:
  "serve (cors (Some [''allowHeaders'' \<mapsto> JArr []]))
     [\<lparr>req_method = ''OPTIONS'',
       req_headers = [''Origin'' \<mapsto> ''http://koajs.com'',
                      ''Access-Control-Request-Method'' \<mapsto> ''PUT'',
                      ''Access-Control-Request-Headers'' \<mapsto> ''X-PINGOTHER'']\<rparr>]
   = serve (cors (Some [''allowHeaders'' \<mapsto> JUndefined]))
     [\<lparr>req_method = ''OPTIONS'',
       req_headers = [''Origin'' \<mapsto> ''http://koajs.com'',
                      ''Access-Control-Request-Method'' \<mapsto> ''PUT'',
                      ''Access-Control-Request-Headers'' \<mapsto> ''X-PINGOTHER'']\<rparr>]
   \<and> ResponseSet ''Access-Control-Allow-Headers'' (JStr ''X-PINGOTHER'')
       \<in> set (snd (main (cors (Some [''allowHeaders'' \<mapsto> JArr []]))
           \<lparr>req_method = ''OPTIONS'',
            req_headers = [''Origin'' \<mapsto> ''http://koajs.com'',
                           ''Access-Control-Request-Method'' \<mapsto> ''PUT'',
                           ''Access-Control-Request-Headers'' \<mapsto> ''X-PINGOTHER'']\<rparr>))"
proof -
  let ?r = "\<lparr>req_method = ''OPTIONS'',
             req_headers = [''Origin'' \<mapsto> ''http://koajs.com'',
                            ''Access-Control-Request-Method'' \<mapsto> ''PUT'',
                            ''Access-Control-Request-Headers'' \<mapsto> ''X-PINGOTHER'']\<rparr>"
  have a: "''allowHeaders'' = ''allowMethods'' \<or> ''allowHeaders'' = ''allowHeaders''
         \<or> ''allowHeaders'' = ''exposeHeaders''"
    by simp
  have h: "header_nonempty ?r ''Origin''" "req_method ?r = ''OPTIONS''"
    "header_nonempty ?r ''Access-Control-Request-Method''"
    "header_nonempty ?r ''Access-Control-Request-Headers''"
    by (simp_all add: header_nonempty_def)
  have g: "request_get ?r ''Access-Control-Request-Headers'' = JStr ''X-PINGOTHER''"
    by (simp add: request_get_def)
  note c9 = empty_list_as_undefined[OF a, of Map.empty "[?r]" ?r]
  from c9 have e: "serve (cors (Some [''allowHeaders'' \<mapsto> JArr []])) [?r]
                 = serve (cors (Some [''allowHeaders'' \<mapsto> JUndefined])) [?r]"
    by (rule conjunct1)
  from c9 h have "ResponseSet ''Access-Control-Allow-Headers''
                    (request_get ?r ''Access-Control-Request-Headers'')
                  \<in> set (snd (main (cors (Some [''allowHeaders'' \<mapsto> JArr []])) ?r))"
    by blast
  with g e show ?thesis by (simp only:)
qed

text \<open>
  C10. A configuration object that holds the key \<^verbatim>\<open>allowMethods\<close> with the value
  \<^verbatim>\<open>undefined\<close> overrides the default \<^verbatim>\<open>GET,HEAD,PATCH,PUT,POST,DELETE\<close>: no invocation
  of the instance sets Access-Control-Allow-Methods. When the key is missing (or no options
  are given) every preflight sets Access-Control-Allow-Methods to the default. The merge of
  the defaults treats an explicitly undefined key as an override, not as absence.
\<close>

theorem C10_undefined_overrides_default:
  "(spread opts ''allowMethods'' = Some JUndefined \<longrightarrow>
      allowMethods (cors opts) = JUndefined
      \<and> (\<forall>w. ResponseSet ''Access-Control-Allow-Methods'' w
              \<notin> set (snd (main (closure_after (cors opts) rs) r))))
   \<and> (spread opts ''allowMethods'' = None \<and> header_nonempty r ''Origin''
        \<and> req_method r = ''OPTIONS'' \<and> header_nonempty r ''Access-Control-Request-Method'' \<longrightarrow>
      allowMethods (cors opts) = JStr ''GET,HEAD,PATCH,PUT,POST,DELETE''
      \<and> ResponseSet ''Access-Control-Allow-Methods'' (JStr ''GET,HEAD,PATCH,PUT,POST,DELETE'')
          \<in> set (snd (main (closure_after (cors opts) rs) r)))"
proof (intro conjI impI)
  assume u: "spread opts ''allowMethods'' = Some JUndefined"
  then show a: "allowMethods (cors opts) = JUndefined"
    by (simp add: cors_allowMethods join_if_array_def)
  then have "allowMethods (closure_after (cors opts) rs) = JUndefined"
    by (simp add: closure_after_keeps)
  then show "\<forall>w. ResponseSet ''Access-Control-Allow-Methods'' w
              \<notin> set (snd (main (closure_after (cors opts) rs) r))"
    by (cases r rule: main_paths) (simp_all add: main_no_origin main_simple main_preflight)
next
  assume p: "spread opts ''allowMethods'' = None \<and> header_nonempty r ''Origin''
        \<and> req_method r = ''OPTIONS'' \<and> header_nonempty r ''Access-Control-Request-Method''"
  then show a: "allowMethods (cors opts) = JStr ''GET,HEAD,PATCH,PUT,POST,DELETE''"
    by (simp add: cors_allowMethods)
  then have "allowMethods (closure_after (cors opts) rs) = JStr ''GET,HEAD,PATCH,PUT,POST,DELETE''"
    by (simp add: closure_after_keeps)
  with p show "ResponseSet ''Access-Control-Allow-Methods'' (JStr ''GET,HEAD,PATCH,PUT,POST,DELETE'')
          \<in> set (snd (main (closure_after (cors opts) rs) r))"
    by (simp add: main_preflight)
qed

text \<open>C10 at the preflight of the test suite: \<^verbatim>\<open>cors({ allowMethods: undefined })\<close> sets no
  Access-Control-Allow-Methods, \<^verbatim>\<open>cors({})\<close> sets the default.\<close>

theorem C10_undefined_overrides_default_witness:
  "snd (main (closure_after (cors (Some [''allowMethods'' \<mapsto> JUndefined])) [])
      \<lparr>req_method = ''OPTIONS'',
       req_headers = [''Origin'' \<mapsto> ''http://koajs.com'',
                      ''Access-Control-Request-Method'' \<mapsto> ''PUT'']\<rparr>)
   = [ResponseVary ''Origin'',
      ResponseSet ''Access-Control-Allow-Origin'' (JStr ''http://koajs.com''),
      ResponseSend 204 '''']
   \<and> ResponseSet ''Access-Control-Allow-Methods'' (JStr ''GET,HEAD,PATCH,PUT,POST,DELETE'')
       \<in> set (snd (main (closure_after (cors (Some Map.empty)) [])
           \<lparr>req_method = ''OPTIONS'',
            req_headers = [''Origin'' \<mapsto> ''http://koajs.com'',
                           ''Access-Control-Request-Method'' \<mapsto> ''PUT'']\<rparr>))"
proof -
  have t: "snd (main (closure_after (cors (Some [''allowMethods'' \<mapsto> JUndefined])) [])
      \<lparr>req_method = ''OPTIONS'',
       req_headers = [''Origin'' \<mapsto> ''http://koajs.com'',
                      ''Access-Control-Request-Method'' \<mapsto> ''PUT'']\<rparr>)
   = [ResponseVary ''Origin'',
      ResponseSet ''Access-Control-Allow-Origin'' (JStr ''http://koajs.com''),
      ResponseSend 204 '''']"
    using C10_undefined_overrides_default[of "Some [''allowMethods'' \<mapsto> JUndefined]" "[]"
      "\<lparr>req_method = ''OPTIONS'',
        req_headers = [''Origin'' \<mapsto> ''http://koajs.com'',
                       ''Access-Control-Request-Method'' \<mapsto> ''PUT'']\<rparr>"]
    by (simp add: main_def Let_def cors_def spread_def get_prop_def request_get_def
        defaultOptions_def join_if_array_def)
  from C10_undefined_overrides_default[of "Some Map.empty" "[]"
      "\<lparr>req_method = ''OPTIONS'',
        req_headers = [''Origin'' \<mapsto> ''http://koajs.com'',
                       ''Access-Control-Request-Method'' \<mapsto> ''PUT'']\<rparr>"]
  have "ResponseSet ''Access-Control-Allow-Methods'' (JStr ''GET,HEAD,PATCH,PUT,POST,DELETE'')
       \<in> set (snd (main (closure_after (cors (Some Map.empty)) [])
           \<lparr>req_method = ''OPTIONS'',
            req_headers = [''Origin'' \<mapsto> ''http://koajs.com'',
                           ''Access-Control-Request-Method'' \<mapsto> ''PUT'']\<rparr>))"
    by (simp add: spread_def header_nonempty_def)
  with t show ?thesis by simp
qed

section \<open>Where the handler departs from the specification\<close>

text \<open>
  C1 fails on the code. Line 68 assigns the closure variable \<^verbatim>\<open>allowHeaders\<close>, which all
  invocations of an instance share. On an instance configured without \<^verbatim>\<open>allowHeaders\<close>,
  a preflight \<open>r1\<close> that carries a non-empty Access-Control-Request-Headers value \<open>h1\<close>
  changes the closure: \<^verbatim>\<open>allowHeaders\<close> is \<open>h1\<close> from then on. A later preflight \<open>r2\<close> is
  answered with \<open>h1\<close>, and unless \<open>r2\<close> asks for \<open>h1\<close> itself, the calls made for it differ
  from those a new instance of the same configuration makes for the same request.
\<close>

theorem C1_allowHeaders_shared:
  assumes "get_prop (spread opts) ''allowHeaders'' = JUndefined"
    and "header_nonempty r1 ''Origin''" and "req_method r1 = ''OPTIONS''"
    and "header_nonempty r1 ''Access-Control-Request-Method''"
    and "req_headers r1 ''Access-Control-Request-Headers'' = Some h1" and "h1 \<noteq> []"
    and "header_nonempty r2 ''Origin''" and "req_method r2 = ''OPTIONS''"
    and "header_nonempty r2 ''Access-Control-Request-Method''"
    and "req_headers r2 ''Access-Control-Request-Headers'' \<noteq> Some h1"
  shows "allowHeaders (cors opts) = JUndefined
       \<and> allowHeaders (fst (main (cors opts) r1)) = JStr h1
       \<and> fst (main (cors opts) r1) \<noteq> cors opts
       \<and> snd (main (fst (main (cors opts) r1)) r2) \<noteq> snd (main (cors opts) r2)
       \<and> serve (cors opts) [r1, r2] ! 1 \<noteq> serve (cors opts) [r2] ! 0"
proof -
  have u: "allowHeaders (cors opts) = JUndefined"
    using assms(1) by (rule cors_allowHeaders_unset)
  have g: "request_get r1 ''Access-Control-Request-Headers'' = JStr h1"
    using assms(5) by (simp add: request_get_def)
  have a: "allowHeaders (fst (main (cors opts) r1)) = JStr h1"
    using assms(2-4) by (simp add: main_preflight u g)
  then have n: "fst (main (cors opts) r1) \<noteq> cors opts"
    using u by auto
  have t: "truthy (allowHeaders (fst (main (cors opts) r1)))"
    using a assms(6) by simp
  have s: "ResponseSet ''Access-Control-Allow-Headers'' (JStr h1)
            \<in> set (snd (main (fst (main (cors opts) r1)) r2))"
    using assms(7-9) t a by (simp add: main_preflight)
  have "ResponseSet ''Access-Control-Allow-Headers'' (JStr h1)
          \<notin> set (snd (main (cors opts) r2))"
    using assms(7-10)
    by (auto simp add: main_preflight u request_get_def split: option.splits)
  with s have d: "snd (main (fst (main (cors opts) r1)) r2) \<noteq> snd (main (cors opts) r2)"
    by metis
  then have "serve (cors opts) [r1, r2] ! 1 \<noteq> serve (cors opts) [r2] ! 0"
    by simp
  with u a n d show ?thesis by blast
qed

text \<open>C1 fails at two preflights on \<^verbatim>\<open>cors()\<close>: the first asks for \<^verbatim>\<open>X-First\<close>, the
  second for \<^verbatim>\<open>X-Second\<close>.\<close>

theorem C1_allowHeaders_shared_witness:
  "allowHeaders (cors None) = JUndefined
   \<and> allowHeaders (fst (main (cors None)
        \<lparr>req_method = ''OPTIONS'',
         req_headers = [''Origin'' \<mapsto> ''http://a.example'',
                        ''Access-Control-Request-Method'' \<mapsto> ''PUT'',
                        ''Access-Control-Request-Headers'' \<mapsto> ''X-First'']\<rparr>)) = JStr ''X-First''
   \<and> snd (main (fst (main (cors None)
        \<lparr>req_method = ''OPTIONS'',
         req_headers = [''Origin'' \<mapsto> ''http://a.example'',
                        ''Access-Control-Request-Method'' \<mapsto> ''PUT'',
                        ''Access-Control-Request-Headers'' \<mapsto> ''X-First'']\<rparr>))
        \<lparr>req_method = ''OPTIONS'',
         req_headers = [''Origin'' \<mapsto> ''http://b.example'',
                        ''Access-Control-Request-Method'' \<mapsto> ''PUT'',
                        ''Access-Control-Request-Headers'' \<mapsto> ''X-Second'']\<rparr>)
     \<noteq> snd (main (cors None)
        \<lparr>req_method = ''OPTIONS'',
         req_headers = [''Origin'' \<mapsto> ''http://b.example'',
                        ''Access-Control-Request-Method'' \<mapsto> ''PUT'',
                        ''Access-Control-Request-Headers'' \<mapsto> ''X-Second'']\<rparr>)"
proof -
  let ?r1 = "\<lparr>req_method = ''OPTIONS'',
         req_headers = [''Origin'' \<mapsto> ''http://a.example'',
                        ''Access-Control-Request-Method'' \<mapsto> ''PUT'',
                        ''Access-Control-Request-Headers'' \<mapsto> ''X-First'']\<rparr>"
  let ?r2 = "\<lparr>req_method = ''OPTIONS'',
         req_headers = [''Origin'' \<mapsto> ''http://b.example'',
                        ''Access-Control-Request-Method'' \<mapsto> ''PUT'',
                        ''Access-Control-Request-Headers'' \<mapsto> ''X-Second'']\<rparr>"
  have 1: "get_prop (spread None) ''allowHeaders'' = JUndefined"
    by (simp add: get_prop_def spread_def)
  have 2: "header_nonempty ?r1 ''Origin''" and 3: "req_method ?r1 = ''OPTIONS''"
    and 4: "header_nonempty ?r1 ''Access-Control-Request-Method''"
    and 5: "req_headers ?r1 ''Access-Control-Request-Headers'' = Some ''X-First''"
    and 6: "''X-First'' \<noteq> []"
    and 7: "header_nonempty ?r2 ''Origin''" and 8: "req_method ?r2 = ''OPTIONS''"
    and 9: "header_nonempty ?r2 ''Access-Control-Request-Method''"
    and 10: "req_headers ?r2 ''Access-Control-Request-Headers'' \<noteq> Some ''X-First''"
    by (simp_all add: header_nonempty_def)
  from C1_allowHeaders_shared[OF 1 2 3 4 5 6 7 8 9 10] show ?thesis by blast
qed

text \<open>
  C2 fails on the code for \<^verbatim>\<open>origins\<close>. The interface admits a list of strings for
  \<^verbatim>\<open>origins\<close>, but \<^verbatim>\<open>cors\<close> joins only \<^verbatim>\<open>exposeHeaders\<close>, \<^verbatim>\<open>allowMethods\<close> and
  \<^verbatim>\<open>allowHeaders\<close>: a list given for \<^verbatim>\<open>origins\<close> stays a list in the closure, and every
  request with an Origin has Access-Control-Allow-Origin set from the list itself.
\<close>

theorem C2_origins_list_not_joined:
  assumes "get_prop (spread opts) ''origins'' = JArr xs" and "header_nonempty r ''Origin''"
  shows "origins (cors opts) = JArr xs
       \<and> ResponseSet ''Access-Control-Allow-Origin'' (JArr xs)
           \<in> set (snd (main (closure_after (cors opts) rs) r))
       \<and> res_headers (perform (snd (main (closure_after (cors opts) rs) r)) ex)
           ''Access-Control-Allow-Origin'' = Some (JArr xs)"
proof -
  have o: "origins (cors opts) = JArr xs"
    using assms(1) by (simp add: cors_origins)
  then have c: "origins (closure_after (cors opts) rs) = JArr xs"
    by (simp add: closure_after_keeps)
  show ?thesis
  proof (cases r rule: main_paths)
    case no_origin
    with assms(2) show ?thesis by simp
  next
    case simple
    then show ?thesis by (simp add: main_simple perform_defs o c)
  next
    case preflight
    then show ?thesis by (simp add: main_preflight perform_defs o c)
  qed
qed

text \<open>C2 fails at \<^verbatim>\<open>cors({ origins: ['http://a.example', 'http://b.example'] })\<close> and a GET
  request from \<^verbatim>\<open>http://a.example\<close>.\<close>

theorem C2_origins_list_not_joined_witness:
  "origins (cors (Some [''origins'' \<mapsto> JArr [''http://a.example'', ''http://b.example'']]))
     = JArr [''http://a.example'', ''http://b.example'']
   \<and> ResponseSet ''Access-Control-Allow-Origin''
         (JArr [''http://a.example'', ''http://b.example''])
       \<in> set (snd (main (closure_after
             (cors (Some [''origins'' \<mapsto> JArr [''http://a.example'', ''http://b.example'']])) [])
             \<lparr>req_method = ''GET'', req_headers = [''Origin'' \<mapsto> ''http://a.example'']\<rparr>))"
proof -
  have 1: "get_prop
             (spread (Some [''origins'' \<mapsto> JArr [''http://a.example'', ''http://b.example'']]))
             ''origins'' = JArr [''http://a.example'', ''http://b.example'']"
    by (simp add: get_prop_def spread_def)
  have 2: "header_nonempty
             \<lparr>req_method = ''GET'', req_headers = [''Origin'' \<mapsto> ''http://a.example'']\<rparr>
             ''Origin''"
    by (simp add: header_nonempty_def)
  from C2_origins_list_not_joined[OF 1 2, of "[]"] show ?thesis by blast
qed

text \<open>What \<^verbatim>\<open>cors\<close> does normalize: the three list options are never arrays in the
  closure, an array is replaced by its comma-joined string, and \<^verbatim>\<open>credentials\<close> is a
  boolean.\<close>

lemma cors_normalizes:
  "allowMethods (cors opts) \<noteq> JArr xs"
  "allowHeaders (cors opts) \<noteq> JArr xs"
  "exposeHeaders (cors opts) \<noteq> JArr xs"
  "credentials (cors opts) = JBool True \<or> credentials (cors opts) = JBool False"
  by (simp_all add: cors_def Let_def join_if_array_def split: jsval.splits)

lemma cors_joins:
  "get_prop (spread opts) ''allowMethods'' = JArr xs
   \<Longrightarrow> allowMethods (cors opts) = JStr (array_join xs '','')"
  "get_prop (spread opts) ''allowHeaders'' = JArr xs
   \<Longrightarrow> allowHeaders (cors opts) = JStr (array_join xs '','')"
  "get_prop (spread opts) ''exposeHeaders'' = JArr xs
   \<Longrightarrow> exposeHeaders (cors opts) = JStr (array_join xs '','')"
  by (simp_all add: cors_def defaultOptions_def get_prop_def map_add_def join_if_array_def
      split: option.splits)

text \<open>
  C8 fails on the code, by the assignment of line 68 that C1 fails by. On an instance
  configured without \<^verbatim>\<open>allowHeaders\<close>, once a preflight \<open>r1\<close> has carried a non-empty
  Access-Control-Request-Headers value \<open>h1\<close>, every later preflight \<open>r2\<close> has
  Access-Control-Allow-Headers set to \<open>h1\<close> and to nothing else: not to the value of its own
  Access-Control-Request-Headers, and also when it carries no such header.
\<close>

theorem C8_allow_headers_of_earlier_request:
  assumes "get_prop (spread opts) ''allowHeaders'' = JUndefined"
    and "header_nonempty r1 ''Origin''" and "req_method r1 = ''OPTIONS''"
    and "header_nonempty r1 ''Access-Control-Request-Method''"
    and "req_headers r1 ''Access-Control-Request-Headers'' = Some h1" and "h1 \<noteq> []"
    and "header_nonempty r2 ''Origin''" and "req_method r2 = ''OPTIONS''"
    and "header_nonempty r2 ''Access-Control-Request-Method''"
  shows "\<forall>w. ResponseSet ''Access-Control-Allow-Headers'' w
               \<in> set (snd (main (closure_after (cors opts) [r1]) r2))
            \<longleftrightarrow> w = JStr h1"
proof -
  have u: "allowHeaders (cors opts) = JUndefined"
    using assms(1) by (rule cors_allowHeaders_unset)
  have g: "request_get r1 ''Access-Control-Request-Headers'' = JStr h1"
    using assms(5) by (simp add: request_get_def)
  have a: "allowHeaders (fst (main (cors opts) r1)) = JStr h1"
    using assms(2-4) by (simp add: main_preflight u g)
  show ?thesis
    using assms(6-9) by (auto simp add: main_preflight a)
qed

text \<open>C8 fails at two preflights on \<^verbatim>\<open>cors()\<close>: the first asks for \<^verbatim>\<open>X-PINGOTHER\<close>,
  the second carries no Access-Control-Request-Headers and is answered with
  \<^verbatim>\<open>X-PINGOTHER\<close> all the same.\<close>

theorem C8_allow_headers_of_earlier_request_witness:
  "req_headers
     \<lparr>req_method = ''OPTIONS'',
      req_headers = [''Origin'' \<mapsto> ''http://b.example'',
                     ''Access-Control-Request-Method'' \<mapsto> ''PUT'']\<rparr>
     ''Access-Control-Request-Headers'' = None
   \<and> ResponseSet ''Access-Control-Allow-Headers'' (JStr ''X-PINGOTHER'')
       \<in> set (snd (main (closure_after (cors None)
             [\<lparr>req_method = ''OPTIONS'',
               req_headers = [''Origin'' \<mapsto> ''http://koajs.com'',
                              ''Access-Control-Request-Method'' \<mapsto> ''PUT'',
                              ''Access-Control-Request-Headers'' \<mapsto> ''X-PINGOTHER'']\<rparr>])
             \<lparr>req_method = ''OPTIONS'',
              req_headers = [''Origin'' \<mapsto> ''http://b.example'',
                             ''Access-Control-Request-Method'' \<mapsto> ''PUT'']\<rparr>))"
proof -
  let ?r1 = "\<lparr>req_method = ''OPTIONS'',
               req_headers = [''Origin'' \<mapsto> ''http://koajs.com'',
                              ''Access-Control-Request-Method'' \<mapsto> ''PUT'',
                              ''Access-Control-Request-Headers'' \<mapsto> ''X-PINGOTHER'']\<rparr>"
  let ?r2 = "\<lparr>req_method = ''OPTIONS'',
              req_headers = [''Origin'' \<mapsto> ''http://b.example'',
                             ''Access-Control-Request-Method'' \<mapsto> ''PUT'']\<rparr>"
  have 1: "get_prop (spread None) ''allowHeaders'' = JUndefined"
    by (simp add: get_prop_def spread_def)
  have 2: "header_nonempty ?r1 ''Origin''" and 3: "req_method ?r1 = ''OPTIONS''"
    and 4: "header_nonempty ?r1 ''Access-Control-Request-Method''"
    and 5: "req_headers ?r1 ''Access-Control-Request-Headers'' = Some ''X-PINGOTHER''"
    and 6: "''X-PINGOTHER'' \<noteq> []"
    and 7: "header_nonempty ?r2 ''Origin''" and 8: "req_method ?r2 = ''OPTIONS''"
    and 9: "header_nonempty ?r2 ''Access-Control-Request-Method''"
    by (simp_all add: header_nonempty_def)
  have n: "req_headers ?r2 ''Access-Control-Request-Headers'' = None"
    by simp
  from C8_allow_headers_of_earlier_request[OF 1 2 3 4 5 6 7 8 9] n show ?thesis by blast
qed

text \<open>
  C9 fails on the code for \<^verbatim>\<open>allowHeaders\<close>, by the assignment of line 68 that C1 and C8
  fail by. With \<^verbatim>\<open>allowHeaders: []\<close> construction succeeds and the closure holds the empty
  string, which is falsy, so the option has no value of its own. But the fallback to the
  request's own header applies to the first preflight only: once a preflight \<open>r1\<close> has
  carried a non-empty Access-Control-Request-Headers value \<open>h1\<close>, every later preflight
  \<open>r2\<close> has Access-Control-Allow-Headers set to \<open>h1\<close> and to nothing else, so a request
  that asks for other headers, or for none, is not answered from its own
  Access-Control-Request-Headers.
\<close>

theorem C9_empty_list_fallback_of_earlier_request:
  assumes "header_nonempty r1 ''Origin''" and "req_method r1 = ''OPTIONS''"
    and "header_nonempty r1 ''Access-Control-Request-Method''"
    and "req_headers r1 ''Access-Control-Request-Headers'' = Some h1" and "h1 \<noteq> []"
    and "header_nonempty r2 ''Origin''" and "req_method r2 = ''OPTIONS''"
    and "header_nonempty r2 ''Access-Control-Request-Method''"
    and "req_headers r2 ''Access-Control-Request-Headers'' \<noteq> Some h1"
  shows "allowHeaders (cors (Some (m(''allowHeaders'' \<mapsto> JArr [])))) = JStr []
       \<and> allowHeaders (closure_after (cors (Some (m(''allowHeaders'' \<mapsto> JArr [])))) [r1])
           = JStr h1
       \<and> (\<forall>w. ResponseSet ''Access-Control-Allow-Headers'' w
                 \<in> set (snd (main (closure_after
                       (cors (Some (m(''allowHeaders'' \<mapsto> JArr [])))) [r1]) r2))
              \<longleftrightarrow> w = JStr h1)
       \<and> ResponseSet ''Access-Control-Allow-Headers''
             (request_get r2 ''Access-Control-Request-Headers'')
           \<notin> set (snd (main (closure_after
                 (cors (Some (m(''allowHeaders'' \<mapsto> JArr [])))) [r1]) r2))"
proof -
  let ?c = "cors (Some (m(''allowHeaders'' \<mapsto> JArr [])))"
  have e: "allowHeaders ?c = JStr []"
    by (simp add: cors_empty_list)
  have g: "request_get r1 ''Access-Control-Request-Headers'' = JStr h1"
    using assms(4) by (simp add: request_get_def)
  have a: "allowHeaders (fst (main ?c r1)) = JStr h1"
    using assms(1-3) by (simp add: main_preflight e g)
  have s: "\<forall>w. ResponseSet ''Access-Control-Allow-Headers'' w
                 \<in> set (snd (main (closure_after ?c [r1]) r2))
              \<longleftrightarrow> w = JStr h1"
    using assms(5-8) by (auto simp add: main_preflight a)
  have n: "request_get r2 ''Access-Control-Request-Headers'' \<noteq> JStr h1"
    using assms(9) by (auto simp add: request_get_def split: option.splits)
  from e a s n show ?thesis by simp
qed

text \<open>C9 fails at \<^verbatim>\<open>cors({ allowHeaders: [] })\<close> and two preflights: the first asks for
  \<^verbatim>\<open>X-First\<close>, the second for \<^verbatim>\<open>X-Second\<close> and is answered with \<^verbatim>\<open>X-First\<close>.\<close>

theorem C9_empty_list_fallback_of_earlier_request_witness:
  "allowHeaders (cors (Some [''allowHeaders'' \<mapsto> JArr []])) = JStr []
   \<and> ResponseSet ''Access-Control-Allow-Headers'' (JStr ''X-First'')
       \<in> set (snd (main (closure_after (cors (Some [''allowHeaders'' \<mapsto> JArr []]))
             [\<lparr>req_method = ''OPTIONS'',
               req_headers = [''Origin'' \<mapsto> ''http://a.example'',
                              ''Access-Control-Request-Method'' \<mapsto> ''PUT'',
                              ''Access-Control-Request-Headers'' \<mapsto> ''X-First'']\<rparr>])
             \<lparr>req_method = ''OPTIONS'',
              req_headers = [''Origin'' \<mapsto> ''http://b.example'',
                             ''Access-Control-Request-Method'' \<mapsto> ''PUT'',
                             ''Access-Control-Request-Headers'' \<mapsto> ''X-Second'']\<rparr>))
   \<and> ResponseSet ''Access-Control-Allow-Headers'' (JStr ''X-Second'')
       \<notin> set (snd (main (closure_after (cors (Some [''allowHeaders'' \<mapsto> JArr []]))
             [\<lparr>req_method = ''OPTIONS'',
               req_headers = [''Origin'' \<mapsto> ''http://a.example'',
                              ''Access-Control-Request-Method'' \<mapsto> ''PUT'',
                              ''Access-Control-Request-Headers'' \<mapsto> ''X-First'']\<rparr>])
             \<lparr>req_method = ''OPTIONS'',
              req_headers = [''Origin'' \<mapsto> ''http://b.example'',
                             ''Access-Control-Request-Method'' \<mapsto> ''PUT'',
                             ''Access-Control-Request-Headers'' \<mapsto> ''X-Second'']\<rparr>))"
proof -
  let ?r1 = "\<lparr>req_method = ''OPTIONS'',
               req_headers = [''Origin'' \<mapsto> ''http://a.example'',
                              ''Access-Control-Request-Method'' \<mapsto> ''PUT'',
                              ''Access-Control-Request-Headers'' \<mapsto> ''X-First'']\<rparr>"
  let ?r2 = "\<lparr>req_method = ''OPTIONS'',
              req_headers = [''Origin'' \<mapsto> ''http://b.example'',
                             ''Access-Control-Request-Method'' \<mapsto> ''PUT'',
                             ''Access-Control-Request-Headers'' \<mapsto> ''X-Second'']\<rparr>"
  have 1: "header_nonempty ?r1 ''Origin''" and 2: "req_method ?r1 = ''OPTIONS''"
    and 3: "header_nonempty ?r1 ''Access-Control-Request-Method''"
    and 4: "req_headers ?r1 ''Access-Control-Request-Headers'' = Some ''X-First''"
    and 5: "''X-First'' \<noteq> []"
    and 6: "header_nonempty ?r2 ''Origin''" and 7: "req_method ?r2 = ''OPTIONS''"
    and 8: "header_nonempty ?r2 ''Access-Control-Request-Method''"
    and 9: "req_headers ?r2 ''Access-Control-Request-Headers'' \<noteq> Some ''X-First''"
    by (simp_all add: header_nonempty_def)
  have g: "request_get ?r2 ''Access-Control-Request-Headers'' = JStr ''X-Second''"
    by (simp add: request_get_def)
  note c9 = C9_empty_list_fallback_of_earlier_request[OF 1 2 3 4 5 6 7 8 9, of Map.empty]
  from c9 have a: "allowHeaders (cors (Some [''allowHeaders'' \<mapsto> JArr []])) = JStr []"
    by (rule conjunct1)
  from c9 have b: "ResponseSet ''Access-Control-Allow-Headers'' (JStr ''X-First'')
       \<in> set (snd (main (closure_after (cors (Some [''allowHeaders'' \<mapsto> JArr []])) [?r1]) ?r2))"
    by blast
  from c9 have n: "ResponseSet ''Access-Control-Allow-Headers''
         (request_get ?r2 ''Access-Control-Request-Headers'')
       \<notin> set (snd (main (closure_after (cors (Some [''allowHeaders'' \<mapsto> JArr []])) [?r1]) ?r2))"
    by (elim conjE)
  have c: "ResponseSet ''Access-Control-Allow-Headers'' (JStr ''X-Second'')
       \<notin> set (snd (main (closure_after (cors (Some [''allowHeaders'' \<mapsto> JArr []])) [?r1]) ?r2))"
    using n unfolding g .
  from a b c show ?thesis by (intro conjI)
qed

text \<open>On a new instance the first preflight is answered as C8 says: with the configured
  value when there is one, else with its own Access-Control-Request-Headers value when that
  is non-empty, else with no Access-Control-Allow-Headers.\<close>

lemma first_preflight_allow_headers:
  assumes "header_nonempty r ''Origin''" and "req_method r = ''OPTIONS''"
    and "header_nonempty r ''Access-Control-Request-Method''"
  shows "ResponseSet ''Access-Control-Allow-Headers'' w \<in> set (snd (main (cors opts) r))
         \<longleftrightarrow> (if truthy (allowHeaders (cors opts)) then w = allowHeaders (cors opts)
              else header_nonempty r ''Access-Control-Request-Headers''
                 \<and> w = request_get r ''Access-Control-Request-Headers'')"
  using assms by (auto simp add: main_preflight)

end
